theory Spec2Isabelle
  imports Main
begin

section \<open>Python strings\<close>

text \<open>
  A Python \<open>str\<close> is the list of its code points. The model uses \<^typ>\<open>string\<close>, so it
  covers the code points below 256 (ASCII and Latin-1); a \<^typ>\<open>char\<close> is one code
  point, not a byte of an encoding.
\<close>

text \<open>
  The characters for which \<open>str.isspace\<close> holds, below 256. \<open>str.strip()\<close>,
  \<open>str.split()\<close> and the regular-expression class \<open>\s\<close> all use this set.
\<close>

definition is_space :: "char \<Rightarrow> bool" where
  "is_space c \<longleftrightarrow>
     c \<in> set [CHR 0x09, CHR 0x0A, CHR 0x0B, CHR 0x0C, CHR 0x0D,
              CHR 0x1C, CHR 0x1D, CHR 0x1E, CHR 0x1F, CHR 0x20, CHR 0x85, CHR 0xA0]"

text \<open>\<open>s.strip()\<close>: whitespace removed at both ends.\<close>

definition strip :: "string \<Rightarrow> string" where
  "strip s = rev (dropWhile is_space (rev (dropWhile is_space s)))"

text \<open>\<open>s.rstrip(chars)\<close>: every trailing character that occurs in \<open>chars\<close> is removed.\<close>

definition rstrip :: "string \<Rightarrow> string \<Rightarrow> string" where
  "rstrip chars s = rev (dropWhile (\<lambda>c. c \<in> set chars) (rev s))"

text \<open>\<open>s.startswith(p)\<close>.\<close>

definition startswith :: "string \<Rightarrow> string \<Rightarrow> bool" where
  "startswith s p \<longleftrightarrow> take (length p) s = p"

text \<open>\<open>sep.join(xs)\<close>.\<close>

fun join :: "string \<Rightarrow> string list \<Rightarrow> string" where
  "join sep [] = []"
| "join sep [x] = x"
| "join sep (x # y # ys) = x @ sep @ join sep (y # ys)"

text \<open>
  \<open>s.split(sep)\<close> for a separator of one character: the pieces between the
  separators, empty pieces kept; never the empty list.
\<close>

fun split_on :: "char \<Rightarrow> string \<Rightarrow> string list" where
  "split_on sep [] = [[]]"
| "split_on sep (c # cs) =
     (if c = sep then [] # split_on sep cs
      else (c # hd (split_on sep cs)) # tl (split_on sep cs))"

text \<open>\<open>s.split()\<close>: the maximal runs of non-whitespace characters.\<close>

function split_ws :: "string \<Rightarrow> string list" where
  "split_ws s =
     (case dropWhile is_space s of
        [] \<Rightarrow> []
      | c # cs \<Rightarrow> takeWhile (\<lambda>x. \<not> is_space x) (c # cs)
                 # split_ws (dropWhile (\<lambda>x. \<not> is_space x) (c # cs)))"
  by pat_completeness auto
termination
proof (relation "measure length")
  show "wf (measure length)" by simp
next
  fix s :: string and c cs
  assume d: "dropWhile is_space s = c # cs"
  have "\<not> is_space c"
    using d hd_dropWhile [of is_space s] by auto
  then have "length (dropWhile (\<lambda>x. \<not> is_space x) (c # cs)) \<le> length cs"
    by (simp add: length_dropWhile_le)
  moreover have "length (c # cs) \<le> length s"
    using length_dropWhile_le [of is_space s] d by simp
  ultimately show "(dropWhile (\<lambda>x. \<not> is_space x) (c # cs), s) \<in> measure length"
    by simp
qed

declare split_ws.simps [simp del]

text \<open>
  \<open>s.lower()\<close> on code points below 256: the ASCII capitals and the Latin-1 capitals
  (\<open>0xC0\<close> to \<open>0xDE\<close> without the multiplication sign \<open>0xD7\<close>) move up by 32.
\<close>

definition lower_char :: "char \<Rightarrow> char" where
  "lower_char c =
     (let n = (of_char c :: nat)
      in if (65 \<le> n \<and> n \<le> 90) \<or> (192 \<le> n \<and> n \<le> 222 \<and> n \<noteq> 215)
         then char_of (n + 32) else c)"

definition lower :: "string \<Rightarrow> string" where
  "lower s = map lower_char s"

text \<open>\<open>str(n)\<close> for an integer: its decimal digits, with a minus sign when negative.\<close>

definition digit_char :: "nat \<Rightarrow> char" where
  "digit_char d = char_of (48 + d)"

function str_nat :: "nat \<Rightarrow> string" where
  "str_nat n = (if n < 10 then [digit_char n] else str_nat (n div 10) @ [digit_char (n mod 10)])"
  by pat_completeness auto
termination
  by (relation "measure id") auto

declare str_nat.simps [simp del]

definition str_int :: "int \<Rightarrow> string" where
  "str_int i = (if i < 0 then CHR ''-'' # str_nat (nat (- i)) else str_nat (nat i))"

section \<open>Errors\<close>

text \<open>The exceptions that leave the methods of \<open>IEEEBibTeX\<close>.\<close>

datatype error =
    ValueError string
  | FetchException string
  | IndexError
  | AttributeError
  | TypeError
  | KeyError

section \<open>The serializer and the manual construction path\<close>

text \<open>
  \<open>_format_authors\<close>: split at the commas, strip each piece, join with \<open>" and "\<close>.
\<close>

definition format_authors :: "string \<Rightarrow> string" where
  "format_authors authors = join '' and '' (map strip (split_on CHR '','' authors))"

text \<open>
  The \<open>fields\<close> dictionary is insertion-ordered: an association list. A value is a
  string or \<open>None\<close>; \<open>if value:\<close> holds for a non-empty string only.
\<close>

type_synonym fields = "(string \<times> string option) list"

fun truthy :: "string option \<Rightarrow> bool" where
  "truthy None = False"
| "truthy (Some v) = (v \<noteq> [])"

text \<open>The body of the loop of \<open>_create_entry\<close>: one field appended to the entry text.\<close>

fun add_field :: "string \<Rightarrow> string \<times> string option \<Rightarrow> string" where
  "add_field entry (key, value) =
     (if truthy value then entry @ ''  '' @ key @ '' = {'' @ the value @ ''},'' @ [CHR 0x0A]
      else entry)"

definition create_entry :: "string \<Rightarrow> string \<Rightarrow> fields \<Rightarrow> string" where
  "create_entry entry_type citation_key fields =
     rstrip ('','' @ [CHR 0x0A])
       (foldl add_field (''@'' @ entry_type @ ''{'' @ citation_key @ '','' @ [CHR 0x0A]) fields)
     @ [CHR 0x0A] @ ''}''"

text \<open>
  \<open>create_article\<close> and \<open>create_inproceeding\<close>. The annotations of the parameters are
  not enforced and \<open>generate_from_identifier\<close> passes \<open>None\<close> for some of them, so every
  field value is a string or \<open>None\<close>; \<open>authors\<close> is a string, since it is split.
\<close>

definition create_article ::
  "string \<Rightarrow> string option \<Rightarrow> string \<Rightarrow> string option \<Rightarrow> string option \<Rightarrow> string option
   \<Rightarrow> string option \<Rightarrow> string option \<Rightarrow> string option \<Rightarrow> string" where
  "create_article citation_key title authors journal year volume number pages doi =
     create_entry ''article'' citation_key
       [(''author'', Some (format_authors authors)),
        (''title'', title),
        (''journal'', journal),
        (''year'', year),
        (''volume'', volume),
        (''number'', number),
        (''pages'', pages),
        (''doi'', doi)]"

definition create_inproceeding ::
  "string \<Rightarrow> string option \<Rightarrow> string \<Rightarrow> string option \<Rightarrow> string option \<Rightarrow> string option
   \<Rightarrow> string option \<Rightarrow> string option \<Rightarrow> string" where
  "create_inproceeding citation_key title authors booktitle year pages location doi =
     create_entry ''inproceeding'' citation_key
       [(''author'', Some (format_authors authors)),
        (''title'', title),
        (''booktitle'', booktitle),
        (''year'', year),
        (''pages'', pages),
        (''address'', location),
        (''doi'', doi)]"

section \<open>Regular expressions\<close>

text \<open>
  The three patterns of \<open>extract_doi_from_url\<close> are sequences of two kinds of items:
  one character of a class, and a greedy repetition \<open>+\<close> of a class. \<open>re.search\<close> is a
  backtracking matcher: a repetition first takes as many characters as it can and gives
  them back one at a time while the rest of the pattern fails, and the match is looked
  for at every start position from left to right.
\<close>

datatype item = One "char \<Rightarrow> bool" | Many1 "char \<Rightarrow> bool"

text \<open>The first count, from \<open>n\<close> down to 1, at which \<open>f\<close> succeeds.\<close>

primrec first_down :: "(nat \<Rightarrow> 'a option) \<Rightarrow> nat \<Rightarrow> 'a option" where
  "first_down f 0 = None"
| "first_down f (Suc n) = (case f (Suc n) of Some r \<Rightarrow> Some r | None \<Rightarrow> first_down f n)"

text \<open>
  A match of the items at the head of the text: the piece of text each item matched,
  or \<open>None\<close> when there is no match.
\<close>

primrec match_here :: "item list \<Rightarrow> string \<Rightarrow> string list option" where
  "match_here [] s = Some []"
| "match_here (i # rest) s =
     (case i of
        One p \<Rightarrow>
          (case s of
             [] \<Rightarrow> None
           | c # cs \<Rightarrow> if p c then map_option ((#) [c]) (match_here rest cs) else None)
      | Many1 p \<Rightarrow>
          first_down (\<lambda>n. map_option ((#) (take n s)) (match_here rest (drop n s)))
            (length (takeWhile p s)))"

text \<open>
  A pattern \<open>before(group1)\<close>: items outside the group, then the capture group, which
  ends the pattern.
\<close>

datatype pattern = Pattern (before: "item list") (group1: "item list")

text \<open>\<open>match.group(1)\<close> of a match that starts at the head of the text.\<close>

definition match_at :: "pattern \<Rightarrow> string \<Rightarrow> string option" where
  "match_at p s =
     map_option (\<lambda>pieces. concat (drop (length (before p)) pieces))
       (match_here (before p @ group1 p) s)"

text \<open>\<open>re.search(pattern, s)\<close>, then \<open>group(1)\<close>: the leftmost match.\<close>

fun re_search :: "pattern \<Rightarrow> string \<Rightarrow> string option" where
  "re_search p [] = match_at p []"
| "re_search p (c # cs) =
     (case match_at p (c # cs) of Some g \<Rightarrow> Some g | None \<Rightarrow> re_search p cs)"

definition literal :: "string \<Rightarrow> item list" where
  "literal s = map (\<lambda>c. One (\<lambda>x. x = c)) s"

text \<open>The class \<open>[^/\s]\<close>.\<close>

definition segment_char :: "char \<Rightarrow> bool" where
  "segment_char c \<longleftrightarrow> c \<noteq> CHR ''/'' \<and> \<not> is_space c"

text \<open>The class \<open>[0-9]\<close>.\<close>

definition digit :: "char \<Rightarrow> bool" where
  "digit c \<longleftrightarrow> c \<in> set ''0123456789''"

section \<open>The identifier resolver\<close>

text \<open>\<open>doi\.org/([^/\s]+/[^/\s]+)\<close>\<close>

definition doi_org_pattern :: pattern where
  "doi_org_pattern =
     Pattern (literal ''doi.org/'')
       [Many1 segment_char, One (\<lambda>x. x = CHR ''/''), Many1 segment_char]"

text \<open>\<open>doi:([^/\s]+/[^/\s]+)\<close>\<close>

definition doi_marker_pattern :: pattern where
  "doi_marker_pattern =
     Pattern (literal ''doi:'')
       [Many1 segment_char, One (\<lambda>x. x = CHR ''/''), Many1 segment_char]"

text \<open>\<open>([0-9]+\.[0-9]+/[^/\s]+)\<close>\<close>

definition bare_doi_pattern :: pattern where
  "bare_doi_pattern =
     Pattern []
       [Many1 digit, One (\<lambda>x. x = CHR ''.''), Many1 digit, One (\<lambda>x. x = CHR ''/''),
        Many1 segment_char]"

definition doi_patterns :: "pattern list" where
  "doi_patterns = [doi_org_pattern, doi_marker_pattern, bare_doi_pattern]"

text \<open>The loop over the patterns: the first pattern that matches returns.\<close>

fun first_match :: "pattern list \<Rightarrow> string \<Rightarrow> string option" where
  "first_match [] url = None"
| "first_match (p # ps) url =
     (case re_search p url of Some g \<Rightarrow> Some g | None \<Rightarrow> first_match ps url)"

definition extract_doi_from_url :: "string \<Rightarrow> string option" where
  "extract_doi_from_url url = first_match doi_patterns url"

section \<open>The metadata mapper\<close>

text \<open>
  The \<open>message\<close> object of a CrossRef response, with the members \<open>fetch_from_doi\<close>
  reads. \<open>None\<close> is an absent key. \<open>published-print\<close> is an object whose \<open>date-parts\<close>
  member may be absent too; a date part is a number or \<open>null\<close>.
\<close>

record author_entry =
  given :: "string option"
  family :: "string option"

record message =
  m_title :: "string list option"
  m_author :: "author_entry list option"
  m_published_print :: "int option list list option option"
  m_type :: "string option"
  m_container_title :: "string list option"
  m_volume :: "string option"
  m_issue :: "string option"
  m_page :: "string option"

text \<open>
  What \<open>requests.get\<close>, \<open>raise_for_status\<close> and \<open>response.json()['message']\<close> give
  for a URL: a \<open>RequestException\<close> with its text, a body without \<open>message\<close>, or the
  message.
\<close>

datatype response = RequestException string | NoMessage | Message message

text \<open>
  The dictionary \<open>publication_info\<close>. The keys \<open>title\<close>, \<open>authors\<close>, \<open>year\<close>, \<open>doi\<close> and
  \<open>type\<close> are always there (\<open>title\<close> and \<open>type\<close> may hold \<open>None\<close>); for the other four
  \<open>None\<close> is an absent key.
\<close>

record pub_info =
  title :: "string option"
  authors :: string
  year :: string
  doi :: string
  pubtype :: "string option"
  journal :: "string option"
  volume :: "string option"
  number :: "string option"
  pages :: "string option"

text \<open>\<open>str(x)\<close> for a date part.\<close>

fun str_part :: "int option \<Rightarrow> string" where
  "str_part None = ''None''"
| "str_part (Some i) = str_int i"

text \<open>\<open>xs[0]\<close>.\<close>

fun first :: "'a list \<Rightarrow> error + 'a" where
  "first [] = Inl IndexError"
| "first (x # xs) = Inr x"

definition author_name :: "author_entry \<Rightarrow> string" where
  "author_name a =
     (case given a of None \<Rightarrow> [] | Some g \<Rightarrow> g) @ '' ''
     @ (case family a of None \<Rightarrow> [] | Some f \<Rightarrow> f)"

text \<open>\<open>data.get('published-print', {}).get('date-parts', [[None]])\<close>.\<close>

definition date_parts :: "message \<Rightarrow> int option list list" where
  "date_parts data =
     (case m_published_print data of
        None \<Rightarrow> [[None]]
      | Some None \<Rightarrow> [[None]]
      | Some (Some parts) \<Rightarrow> parts)"

text \<open>\<open>if data.get(key):\<close> for a string member: present and not empty.\<close>

definition nonempty :: "string option \<Rightarrow> string option" where
  "nonempty v = (if truthy v then v else None)"

definition publication_info :: "message \<Rightarrow> string \<Rightarrow> error + pub_info" where
  "publication_info data d =
     (case (case m_title data of None \<Rightarrow> Inr None | Some ts \<Rightarrow> map_sum id Some (first ts)) of
        Inl e \<Rightarrow> Inl e
      | Inr t \<Rightarrow>
          (case first (date_parts data) of
             Inl e \<Rightarrow> Inl e
           | Inr part \<Rightarrow>
               (case first part of
                  Inl e \<Rightarrow> Inl e
                | Inr y \<Rightarrow>
                    Inr \<lparr>title = t,
                         authors = join '', ''
                           (map author_name (case m_author data of None \<Rightarrow> [] | Some as \<Rightarrow> as)),
                         year = str_part y,
                         doi = d,
                         pubtype = m_type data,
                         journal =
                           (case m_container_title data of
                              None \<Rightarrow> None | Some [] \<Rightarrow> None | Some (j # js) \<Rightarrow> Some j),
                         volume = nonempty (m_volume data),
                         number = nonempty (m_issue data),
                         pages = nonempty (m_page data)\<rparr>)))"

text \<open>
  \<open>fetch_from_doi\<close>, with the requests it makes: the URLs it asks for, in order, and
  the result. Only a \<open>RequestException\<close> is caught and wrapped; an \<open>IndexError\<close> of the
  mapping leaves the method as it is. The \<open>print\<close> of the message is left out.
\<close>

definition fetch_from_doi :: "(string \<Rightarrow> response) \<Rightarrow> string \<Rightarrow> string list \<times> (error + pub_info)" where
  "fetch_from_doi get d =
     (let crossref_url = ''https://api.crossref.org/works/'' @ d
      in ([crossref_url],
          (case get crossref_url of
             RequestException e \<Rightarrow> Inl (FetchException (''Error fetching DOI information: '' @ e))
           | NoMessage \<Rightarrow> Inl KeyError
           | Message data \<Rightarrow> publication_info data d)))"

section \<open>The entry builder\<close>

text \<open>\<open>xs[-1]\<close>.\<close>

definition last_item :: "'a list \<Rightarrow> error + 'a" where
  "last_item xs = (if xs = [] then Inl IndexError else Inr (last xs))"

text \<open>
  The citation key: the last word of the first author, the year and the first word of
  the title. \<open>None.split()\<close> raises \<open>AttributeError\<close>.
\<close>

definition citation_key :: "pub_info \<Rightarrow> error + string" where
  "citation_key info =
     (case first (split_on CHR '','' (authors info)) of
        Inl e \<Rightarrow> Inl e
      | Inr a \<Rightarrow>
          (case last_item (split_ws a) of
             Inl e \<Rightarrow> Inl e
           | Inr w \<Rightarrow>
               (let first_author = lower w
                in case title info of
                     None \<Rightarrow> Inl AttributeError
                   | Some t \<Rightarrow>
                       (case first (split_ws t) of
                          Inl e \<Rightarrow> Inl e
                        | Inr tw \<Rightarrow> Inr (first_author @ year info @ lower tw)))))"

definition type_mapping :: "(string \<times> string) list" where
  "type_mapping =
     [(''journal-article'', ''article''),
      (''proceedings-article'', ''inproceedings'')]"

text \<open>\<open>type_mapping.get(pub_info['type'], 'article')\<close>.\<close>

definition entry_type_of :: "string option \<Rightarrow> string" where
  "entry_type_of t =
     (case t of
        None \<Rightarrow> ''article''
      | Some s \<Rightarrow> (case map_of type_mapping s of None \<Rightarrow> ''article'' | Some e \<Rightarrow> e))"

text \<open>The items of the dictionary \<open>pub_info\<close>, in insertion order.\<close>

definition pub_info_items :: "pub_info \<Rightarrow> fields" where
  "pub_info_items info =
     [(''title'', title info),
      (''authors'', Some (authors info)),
      (''year'', Some (year info)),
      (''doi'', Some (doi info)),
      (''type'', pubtype info)]
     @ (case journal info of None \<Rightarrow> [] | Some v \<Rightarrow> [(''journal'', Some v)])
     @ (case volume info of None \<Rightarrow> [] | Some v \<Rightarrow> [(''volume'', Some v)])
     @ (case number info of None \<Rightarrow> [] | Some v \<Rightarrow> [(''number'', Some v)])
     @ (case pages info of None \<Rightarrow> [] | Some v \<Rightarrow> [(''pages'', Some v)])"

text \<open>
  The dispatch on the entry type. In the \<open>inproceedings\<close> branch the arguments are
  evaluated in order, and \<open>pub_info.get['pages']\<close> subscripts the method \<open>get\<close> itself:
  a \<open>TypeError\<close>, before \<open>create_inproceeding\<close> is called.
\<close>

definition build_entry :: "pub_info \<Rightarrow> string \<Rightarrow> error + string" where
  "build_entry info key =
     (let entry_type = entry_type_of (pubtype info)
      in if entry_type = ''article'' then
           Inr (create_article key (title info) (authors info)
                  (case journal info of None \<Rightarrow> Some [] | Some j \<Rightarrow> Some j)
                  (Some (year info)) (volume info) (number info) (pages info)
                  (Some (doi info)))
         else if entry_type = ''inproceedings'' then Inl TypeError
         else Inr (create_entry entry_type key (pub_info_items info)))"

text \<open>The part of \<open>generate_from_identifier\<close> after the DOI is known.\<close>

definition generate_from_doi :: "(string \<Rightarrow> response) \<Rightarrow> string \<Rightarrow> string list \<times> (error + string)" where
  "generate_from_doi get d =
     (case fetch_from_doi get d of
        (requests, Inl e) \<Rightarrow> (requests, Inl e)
      | (requests, Inr info) \<Rightarrow>
          (requests,
           (case citation_key info of
              Inl e \<Rightarrow> Inl e
            | Inr key \<Rightarrow> build_entry info key)))"

text \<open>
  \<open>generate_from_identifier\<close>: the requests made and the result. \<open>if not doi:\<close> holds
  for \<open>None\<close> and for the empty string.
\<close>

definition generate_from_identifier ::
  "(string \<Rightarrow> response) \<Rightarrow> string \<Rightarrow> string list \<times> (error + string)" where
  "generate_from_identifier get identifier =
     (if startswith identifier ''http'' then
        (case extract_doi_from_url identifier of
           None \<Rightarrow> ([], Inl (ValueError ''Could not extract DOI from URL''))
         | Some d \<Rightarrow>
             if d = [] then ([], Inl (ValueError ''Could not extract DOI from URL''))
             else generate_from_doi get d)
      else generate_from_doi get identifier)"

section \<open>Notions used in the statements\<close>

text \<open>
  The fields that produce a line: those whose value is a non-empty string, in the order
  of the mapping, each with its value.
\<close>

definition emitted :: "fields \<Rightarrow> (string \<times> string) list" where
  "emitted fs = map (\<lambda>(k, v). (k, the v)) (filter (\<lambda>(k, v). truthy v) fs)"

text \<open>The line of one field, without the comma and the newline that follow it.\<close>

definition field_line :: "string \<times> string \<Rightarrow> string" where
  "field_line kv = ''  '' @ fst kv @ '' = {'' @ snd kv @ ''}''"

text \<open>A piece of text is what an item can match.\<close>

fun fits :: "item \<Rightarrow> string \<Rightarrow> bool" where
  "fits (One p) x = (case x of [c] \<Rightarrow> p c | _ \<Rightarrow> False)"
| "fits (Many1 p) x = (x \<noteq> [] \<and> list_all p x)"

text \<open>The field mapping of the Article example.\<close>

definition example_fields :: fields where
  "example_fields =
     [(''author'', Some ''John Doe''),
      (''title'', Some ''Analysis of Something''),
      (''journal'', Some ''Journal of Things''),
      (''year'', Some ''2024''),
      (''volume'', Some ''1''),
      (''number'', Some ''2''),
      (''pages'', Some ''34-45'')]"

text \<open>The registry record of the end-to-end example, and a transport that returns it.\<close>

definition journal_message :: message where
  "journal_message =
     \<lparr>m_title = Some [''Test Article''],
      m_author = Some [\<lparr>given = Some ''John'', family = Some ''Doe''\<rparr>],
      m_published_print = Some (Some [[Some 2024]]),
      m_type = Some ''journal-article'',
      m_container_title = Some [''Test Journal''],
      m_volume = None, m_issue = None, m_page = None\<rparr>"

definition serve :: "message \<Rightarrow> string \<Rightarrow> response" where
  "serve data url = Message data"

text \<open>
  Variants of the record: another registry type, a conference paper, and a record
  without a print-publication date. The normalized record of the example.
\<close>

definition book_message :: message where
  "book_message = journal_message\<lparr>m_type := Some ''book''\<rparr>"

definition proceedings_message :: message where
  "proceedings_message = journal_message\<lparr>m_type := Some ''proceedings-article''\<rparr>"

definition undated_message :: message where
  "undated_message = journal_message\<lparr>m_published_print := None\<rparr>"

definition example_info :: pub_info where
  "example_info =
     \<lparr>title = Some ''Test Article'', authors = ''John Doe'', year = ''2024'',
      doi = ''10.1234/example.123'', pubtype = Some ''journal-article'',
      journal = Some ''Test Journal'', volume = None, number = None, pages = None\<rparr>"

section \<open>Lemmas about the serializer and the string operations\<close>

lemma foldl_add_field:
  "foldl add_field e fs = e @ concat (map (\<lambda>kv. field_line kv @ '','' @ [CHR 0x0A]) (emitted fs))"
  by (induction fs arbitrary: e) (auto simp: emitted_def field_line_def)

lemma concat_lines_join:
  "xs \<noteq> [] \<Longrightarrow> concat (map (\<lambda>x. f x @ sep) xs) = join sep (map f xs) @ sep"
  by (induction xs rule: induct_list012) auto

lemma rstrip_append_keep:
  "c \<notin> set chars \<Longrightarrow> \<forall>x\<in>set b. x \<in> set chars \<Longrightarrow> rstrip chars (a @ c # b) = a @ [c]"
  by (simp add: rstrip_def dropWhile_append3)

lemma rstrip_append_drop:
  "\<forall>x\<in>set b. x \<in> set chars \<Longrightarrow> rstrip chars (a @ b) = rstrip chars a"
  using dropWhile_append2 [of "rev b" "\<lambda>c. c \<in> set chars" "rev a"] by (simp add: rstrip_def)

lemma join_field_lines_end:
  assumes "xs \<noteq> []"
  shows "\<exists>a. join sep (map field_line xs) = a @ ''}''"
  using assms
proof (induction xs rule: induct_list012)
  case (2 x)
  show ?case by (simp add: field_line_def)
next
  case (3 x y zs)
  then obtain a where "join sep (map field_line (y # zs)) = a @ ''}''" by auto
  then show ?case by (simp del: join.simps(3) add: join.simps(3)[of sep "field_line x"])
qed simp

lemma create_entry_nonempty:
  assumes "emitted fs \<noteq> []"
  shows "create_entry t k fs =
     ''@'' @ t @ ''{'' @ k @ '','' @ [CHR 0x0A]
       @ join ('','' @ [CHR 0x0A]) (map field_line (emitted fs)) @ [CHR 0x0A] @ ''}''"
proof -
  obtain a where a: "join ('','' @ [CHR 0x0A]) (map field_line (emitted fs)) = a @ ''}''"
    using join_field_lines_end [OF assms] by blast
  have "rstrip ('','' @ [CHR 0x0A]) ((''@'' @ t @ ''{'' @ k @ '','' @ [CHR 0x0A] @ a) @ CHR ''}'' # ('','' @ [CHR 0x0A]))
      = (''@'' @ t @ ''{'' @ k @ '','' @ [CHR 0x0A] @ a) @ ''}''"
    by (rule rstrip_append_keep) simp_all
  then show ?thesis
    unfolding create_entry_def foldl_add_field concat_lines_join [OF assms] a
    by simp
qed

lemma create_entry_empty:
  assumes "emitted fs = []"
  shows "create_entry t k fs = ''@'' @ t @ ''{'' @ rstrip ('','' @ [CHR 0x0A]) k @ [CHR 0x0A] @ ''}''"
proof -
  have 1: "rstrip ('','' @ [CHR 0x0A]) ((''@'' @ t @ ''{'' @ k) @ ('','' @ [CHR 0x0A]))
     = rstrip ('','' @ [CHR 0x0A]) (''@'' @ t @ ''{'' @ k)"
    by (rule rstrip_append_drop) simp
  have 2: "rstrip cs ((''@'' @ t) @ CHR ''{'' # k) = (''@'' @ t) @ CHR ''{'' # rstrip cs k" if "CHR ''{'' \<notin> set cs" for cs
    using that by (auto simp add: rstrip_def dropWhile_append)
  show ?thesis
    using 1 2 [of "'','' @ [CHR 0x0A]"]
    unfolding create_entry_def foldl_add_field assms by simp
qed

lemma emitted_skip: "\<not> truthy v \<Longrightarrow> emitted (fs1 @ (n, v) # fs2) = emitted (fs1 @ fs2)"
  by (simp add: emitted_def)

lemma create_entry_emitted: "emitted fs = emitted fs' \<Longrightarrow> create_entry t k fs = create_entry t k fs'"
  by (simp add: create_entry_def foldl_add_field)

lemma split_on_nocomma: "sep \<notin> set a \<Longrightarrow> split_on sep a = [a]"
  by (induction a) auto

lemma split_on_append: "sep \<notin> set a \<Longrightarrow> split_on sep (a @ sep # r) = a # split_on sep r"
  by (induction a) auto

lemma split_on_join:
  "names \<noteq> [] \<Longrightarrow> \<forall>a\<in>set names. sep \<notin> set a \<Longrightarrow> split_on sep (join [sep] names) = names"
  by (induction names rule: induct_list012) (auto simp: split_on_nocomma split_on_append)

lemma strip_pad:
  assumes "\<forall>c\<in>set l. is_space c" "\<forall>c\<in>set r. is_space c"
  shows "strip (l @ a @ r) = strip a"
proof -
  have 1: "dropWhile is_space (l @ a @ r) = dropWhile is_space (a @ r)"
    using assms(1) by (simp add: dropWhile_append2)
  show ?thesis
  proof (cases "\<forall>c\<in>set a. is_space c")
    case True
    then have e: "dropWhile is_space (a @ r) = []" "dropWhile is_space a = []"
      using assms(2) by (simp_all add: dropWhile_eq_Nil_conv)
    show ?thesis by (simp only: strip_def 1 e)
  next
    case False
    then have 2: "dropWhile is_space (a @ r) = dropWhile is_space a @ r"
      by (metis dropWhile_append1 dropWhile_eq_Nil_conv dropWhile_append)
    have "dropWhile is_space (rev r @ rev (dropWhile is_space a)) = dropWhile is_space (rev (dropWhile is_space a))"
      using assms(2) dropWhile_append2 [of "rev r" is_space "rev (dropWhile is_space a)"] by simp
    then show ?thesis by (simp add: strip_def 1 2)
  qed
qed

lemma strip_ends:
  "strip a = [] \<or> (\<not> is_space (hd (strip a)) \<and> \<not> is_space (last (strip a)))"
proof (cases "strip a = []")
  case False
  define t where "t = dropWhile is_space a"
  define u where "u = dropWhile is_space (rev t)"
  have s: "strip a = rev u" by (simp add: strip_def t_def u_def)
  with False have u: "u \<noteq> []" by simp
  then have "\<not> is_space (hd u)" unfolding u_def by (metis hd_dropWhile)
  then have l: "\<not> is_space (last (strip a))" using u by (simp add: s last_rev)
  from u have t: "t \<noteq> []" unfolding u_def by auto
  then have ht: "\<not> is_space (hd t)" unfolding t_def by (metis hd_dropWhile)
  obtain p where "rev t = p @ u" unfolding u_def by (metis takeWhile_dropWhile_id)
  then have "last (rev t) = last u" using u by simp
  then have "hd (rev u) = hd t" using u t by (simp add: hd_rev last_rev)
  then show ?thesis using ht l s by simp
qed simp

lemma create_entry_example: "create_entry ''article'' ''doe2024analysis'' example_fields =
  ''@article{doe2024analysis,\<newline>  author = {John Doe},\<newline>  title = {Analysis of Something},\<newline>  journal = {Journal of Things},\<newline>  year = {2024},\<newline>  volume = {1},\<newline>  number = {2},\<newline>  pages = {34-45}\<newline>}''"
  by (simp add: create_entry_def example_fields_def rstrip_def)

lemma rstrip_id: "s = [] \<or> last s \<notin> set chars \<Longrightarrow> rstrip chars s = s"
  by (cases s rule: rev_cases) (auto simp: rstrip_def)

lemma create_entry_prefix: "startswith (create_entry t k fs) (''@'' @ t @ ''{'')"
proof (cases "emitted fs = []")
  case True
  show ?thesis unfolding create_entry_empty [OF True] by (simp add: startswith_def)
next
  case False
  show ?thesis unfolding create_entry_nonempty [OF False] by (simp add: startswith_def)
qed

lemma entry_type_of_cases:
  "entry_type_of t = (if t = Some ''proceedings-article'' then ''inproceedings'' else ''article'')"
  by (simp add: entry_type_of_def type_mapping_def split: option.splits)

lemma proceedings_never_returns:
  "pubtype info = Some ''proceedings-article'' \<Longrightarrow> build_entry info key = Inl TypeError"
  by (simp add: build_entry_def entry_type_of_cases)

lemma split_on_not_Nil: "split_on sep s \<noteq> []"
  by (cases s) simp_all

lemma split_ws_Nil: "split_ws [] = []"
  by (simp add: split_ws.simps)


section \<open>Lemmas about the matcher\<close>

lemma first_down_Some:
  "first_down f n = Some r \<Longrightarrow> \<exists>m. 0 < m \<and> m \<le> n \<and> f m = Some r"
proof (induction n)
  case 0
  then show ?case by simp
next
  case (Suc n)
  show ?case
  proof (cases "f (Suc n)")
    case None
    with Suc obtain m where "0 < m" "m \<le> n" "f m = Some r" by auto
    then show ?thesis by (intro exI [of _ m]) simp
  next
    case (Some a)
    with Suc.prems have "f (Suc n) = Some r" by simp
    then show ?thesis by (intro exI [of _ "Suc n"]) simp
  qed
qed

lemma take_run_fits:
  assumes "0 < m" and "m \<le> length (takeWhile p s)"
  shows "fits (Many1 p) (take m s)"
proof -
  have "take m s = take m (takeWhile p s @ dropWhile p s)" by simp
  also have "\<dots> = take m (takeWhile p s)" using assms(2) by (simp del: takeWhile_dropWhile_id)
  finally have e: "take m s = take m (takeWhile p s)" .
  have "set (take m (takeWhile p s)) \<subseteq> set (takeWhile p s)" by (rule set_take_subset)
  then have "\<forall>c\<in>set (take m s). p c" unfolding e by (auto dest: set_takeWhileD)
  moreover have "take m s \<noteq> []" unfolding e using assms by auto
  ultimately show ?thesis by (simp add: list_all_iff)
qed

lemma match_here_sound:
  "match_here items s = Some ps \<Longrightarrow> list_all2 fits items ps \<and> (\<exists>rest. s = concat ps @ rest)"
proof (induction items arbitrary: s ps)
  case Nil
  then show ?case by simp
next
  case (Cons i items)
  show ?case
  proof (cases i)
    case (One p)
    with Cons.prems obtain c cs ps' where s: "s = c # cs" and pc: "p c"
      and m: "match_here items cs = Some ps'" and ps: "ps = [c] # ps'"
      by (auto split: list.splits if_splits)
    from Cons.IH [OF m] obtain rest where "list_all2 fits items ps'" "cs = concat ps' @ rest"
      by blast
    then show ?thesis using One s pc ps by simp
  next
    case (Many1 p)
    with Cons.prems have
      "first_down (\<lambda>n. map_option ((#) (take n s)) (match_here items (drop n s)))
         (length (takeWhile p s)) = Some ps" by simp
    from first_down_Some [OF this] obtain m where m: "0 < m" "m \<le> length (takeWhile p s)"
      and f: "map_option ((#) (take m s)) (match_here items (drop m s)) = Some ps" by blast
    from f obtain ps' where h: "match_here items (drop m s) = Some ps'" and ps: "ps = take m s # ps'"
      by auto
    from Cons.IH [OF h] obtain rest where r: "list_all2 fits items ps'" "drop m s = concat ps' @ rest"
      by blast
    have "s = take m s @ drop m s" by simp
    then have "s = concat ps @ rest" using r(2) ps by (metis append.assoc concat.simps(2))
    then show ?thesis using Many1 ps r(1) take_run_fits [OF m] by auto
  qed
qed

lemma match_at_sound:
  assumes "match_at p s = Some g"
  shows "\<exists>gs pre post. list_all2 fits (group1 p) gs \<and> g = concat gs \<and> s = pre @ g @ post"
proof -
  from assms obtain ps where m: "match_here (before p @ group1 p) s = Some ps"
    and g: "g = concat (drop (length (before p)) ps)"
    by (auto simp: match_at_def)
  from match_here_sound [OF m] obtain rest where
    a: "list_all2 fits (before p @ group1 p) ps" and s: "s = concat ps @ rest" by blast
  from a obtain us vs where uv: "ps = us @ vs" "length us = length (before p)"
    "list_all2 fits (group1 p) vs"
    by (auto simp: list_all2_append1)
  then have "g = concat vs" using g by simp
  moreover have "s = concat us @ concat vs @ rest" using s uv(1) by simp
  ultimately show ?thesis using uv(3) by blast
qed

lemma re_search_sound:
  "re_search p url = Some g \<Longrightarrow>
   \<exists>gs pre post. list_all2 fits (group1 p) gs \<and> g = concat gs \<and> url = pre @ g @ post"
proof (induction url)
  case Nil
  then show ?case using match_at_sound [of p "[]" g] by simp
next
  case (Cons c cs)
  show ?case
  proof (cases "match_at p (c # cs)")
    case None
    with Cons obtain gs pre post where
      "list_all2 fits (group1 p) gs" "g = concat gs" "cs = pre @ g @ post" by auto
    then have "list_all2 fits (group1 p) gs \<and> g = concat gs \<and> c # cs = (c # pre) @ g @ post" by simp
    then show ?thesis by blast
  next
    case (Some a)
    with Cons.prems have "match_at p (c # cs) = Some g" by simp
    then show ?thesis by (rule match_at_sound)
  qed
qed

lemma slash_not_space: "\<not> is_space CHR ''/''"
  by (simp add: is_space_def)

lemma dot_not_space: "\<not> is_space CHR ''.''"
  by (simp add: is_space_def)

lemma digit_segment: "digit c \<Longrightarrow> segment_char c"
  by (auto simp: digit_def segment_char_def is_space_def)

lemma segment_run:
  "list_all segment_char a \<Longrightarrow> (\<forall>c\<in>set a. \<not> is_space c) \<and> count_list a CHR ''/'' = 0"
  by (auto simp: list_all_iff segment_char_def count_list_0_iff)

lemma fits_segments:
  assumes "list_all2 fits [Many1 segment_char, One (\<lambda>x. x = CHR ''/''), Many1 segment_char] gs"
  shows "(\<forall>c\<in>set (concat gs). \<not> is_space c) \<and> count_list (concat gs) CHR ''/'' = 1"
proof -
  from assms obtain a b c where gs: "gs = [a, b, c]" and
    f: "fits (Many1 segment_char) a" "fits (One (\<lambda>x. x = CHR ''/'')) b" "fits (Many1 segment_char) c"
    by (auto simp: list_all2_Cons1)
  from f(2) have b: "b = [CHR ''/'']" by (auto split: list.splits)
  from f(1,3) have "list_all segment_char a" "list_all segment_char c" by simp_all
  then show ?thesis using segment_run [of a] segment_run [of c] gs b slash_not_space by auto
qed

lemma fits_bare:
  assumes "list_all2 fits [Many1 digit, One (\<lambda>x. x = CHR ''.''), Many1 digit,
     One (\<lambda>x. x = CHR ''/''), Many1 segment_char] gs"
  shows "(\<forall>c\<in>set (concat gs). \<not> is_space c) \<and> count_list (concat gs) CHR ''/'' = 1"
proof -
  from assms obtain a b c d e where gs: "gs = [a, b, c, d, e]" and
    f: "fits (Many1 digit) a" "fits (One (\<lambda>x. x = CHR ''.'')) b" "fits (Many1 digit) c"
       "fits (One (\<lambda>x. x = CHR ''/'')) d" "fits (Many1 segment_char) e"
    by (auto simp: list_all2_Cons1)
  from f(2) have b: "b = [CHR ''.'']" by (auto split: list.splits)
  from f(4) have d: "d = [CHR ''/'']" by (auto split: list.splits)
  from f(1,3) have "list_all segment_char a" "list_all segment_char c"
    by (auto simp: list_all_iff digit_segment)
  moreover from f(5) have "list_all segment_char e" by simp
  ultimately show ?thesis
    using segment_run [of a] segment_run [of c] segment_run [of e] gs b d
      slash_not_space dot_not_space by auto
qed

lemma doi_patterns_shape:
  assumes "p \<in> set doi_patterns" and "list_all2 fits (group1 p) gs"
  shows "(\<forall>c\<in>set (concat gs). \<not> is_space c) \<and> count_list (concat gs) CHR ''/'' = 1"
  using assms fits_segments [of gs] fits_bare [of gs]
  by (auto simp: doi_patterns_def doi_org_pattern_def doi_marker_pattern_def bare_doi_pattern_def)

lemma first_match_Some:
  "first_match ps url = Some g \<Longrightarrow> \<exists>p\<in>set ps. re_search p url = Some g"
  by (induction ps) (auto split: option.splits)

section \<open>The serializer\<close>

text \<open>
  Claim C3, as stated, at the citation key \<open>smith2020,\<close> and a mapping whose only value
  is absent. The header would be \<open>@article{smith2020,,\<close>. No field produces a line, and
  the text returned is \<open>@article{smith2020\<close>, a newline and the brace: it is neither the
  header followed by the closing brace nor the header without its last comma followed by
  the closing brace, since the comma that ends the key is removed as well.
\<close>

theorem create_entry_shape_counterexample:
  "emitted [(''note'', None)] = []
   \<and> create_entry ''article'' ''smith2020,'' [(''note'', None)] = ''@article{smith2020\<newline>}''
   \<and> create_entry ''article'' ''smith2020,'' [(''note'', None)] \<noteq> ''@article{smith2020,,\<newline>}''
   \<and> create_entry ''article'' ''smith2020,'' [(''note'', None)] \<noteq> ''@article{smith2020,\<newline>}''"
  by (simp add: emitted_def create_entry_def rstrip_def)

text \<open>
  Claim C3, amended. For every entry type, citation key and field mapping: when at least
  one field has a non-empty value, \<open>_create_entry\<close> returns the header
  \<open>@<entryTypeName>{<citationKey>,\<close>, then one line \<open>  <name> = {<value>},\<close> for each field
  whose value is a non-empty string, in the order of the mapping, each line ended by a
  newline, with the comma of the last line removed, and then a closing brace on a line
  of its own. When no field has a non-empty value, it returns \<open>@<entryTypeName>{\<close>, the
  citation key without its trailing commas and newlines, a newline and the closing brace;
  for a citation key that is empty or does not end in a comma or a newline this is the
  header without its comma, a newline and the closing brace. A field whose value is
  absent or empty produces no line: the text is the same with and without it. On the
  Article example mapping the text is the quoted one.
\<close>

theorem create_entry_shape:
  "(emitted fs \<noteq> [] \<longrightarrow>
      create_entry t k fs =
        ''@'' @ t @ ''{'' @ k @ '',\<newline>''
        @ join '',\<newline>'' (map field_line (emitted fs)) @ ''\<newline>}'')
   \<and> (emitted fs = [] \<longrightarrow>
      create_entry t k fs = ''@'' @ t @ ''{'' @ rstrip '',\<newline>'' k @ ''\<newline>}'')
   \<and> (emitted fs = [] \<and> (k = [] \<or> last k \<notin> set '',\<newline>'') \<longrightarrow>
      create_entry t k fs = ''@'' @ t @ ''{'' @ k @ ''\<newline>}'')
   \<and> (\<not> truthy v \<longrightarrow> create_entry t k (fs1 @ (n, v) # fs2) = create_entry t k (fs1 @ fs2))
   \<and> create_entry ''article'' ''doe2024analysis'' example_fields =
  ''@article{doe2024analysis,\<newline>  author = {John Doe},\<newline>  title = {Analysis of Something},\<newline>  journal = {Journal of Things},\<newline>  year = {2024},\<newline>  volume = {1},\<newline>  number = {2},\<newline>  pages = {34-45}\<newline>}''"
proof (intro conjI impI)
  assume "emitted fs \<noteq> []"
  then show "create_entry t k fs =
        ''@'' @ t @ ''{'' @ k @ '',\<newline>''
        @ join '',\<newline>'' (map field_line (emitted fs)) @ ''\<newline>}''"
    using create_entry_nonempty [of fs t k] by simp
next
  assume "emitted fs = []"
  then show "create_entry t k fs = ''@'' @ t @ ''{'' @ rstrip '',\<newline>'' k @ ''\<newline>}''"
    using create_entry_empty [of fs t k] by simp
next
  assume h: "emitted fs = [] \<and> (k = [] \<or> last k \<notin> set '',\<newline>'')"
  then have "rstrip '',\<newline>'' k = k" by (intro rstrip_id) simp
  then show "create_entry t k fs = ''@'' @ t @ ''{'' @ k @ ''\<newline>}''"
    using h create_entry_empty [of fs t k] by simp
next
  assume "\<not> truthy v"
  then show "create_entry t k (fs1 @ (n, v) # fs2) = create_entry t k (fs1 @ fs2)"
    by (intro create_entry_emitted emitted_skip)
next
  show "create_entry ''article'' ''doe2024analysis'' example_fields =
  ''@article{doe2024analysis,\<newline>  author = {John Doe},\<newline>  title = {Analysis of Something},\<newline>  journal = {Journal of Things},\<newline>  year = {2024},\<newline>  volume = {1},\<newline>  number = {2},\<newline>  pages = {34-45}\<newline>}''"
    by (rule create_entry_example)
qed

text \<open>
  The amended C3 at a mapping with an absent value between two present ones, at a
  mapping with no value and a plain key, and at a mapping with no value and a key that
  ends in a comma.
\<close>

theorem create_entry_shape_witness:
  "emitted [(''author'', Some ''John Doe''), (''volume'', None), (''year'', Some ''2024'')] \<noteq> []
   \<and> \<not> truthy None
   \<and> create_entry ''article'' ''doe2024''
         [(''author'', Some ''John Doe''), (''volume'', None), (''year'', Some ''2024'')]
       = ''@article{doe2024,\<newline>  author = {John Doe},\<newline>  year = {2024}\<newline>}''
   \<and> create_entry ''article'' ''doe2024''
         [(''author'', Some ''John Doe''), (''volume'', None), (''year'', Some ''2024'')]
       = create_entry ''article'' ''doe2024''
           [(''author'', Some ''John Doe''), (''year'', Some ''2024'')]
   \<and> emitted [(''volume'', None)] = []
   \<and> last ''doe2024'' \<notin> set '',\<newline>''
   \<and> create_entry ''article'' ''doe2024'' [(''volume'', None)] = ''@article{doe2024\<newline>}''
   \<and> create_entry ''article'' ''doe2024,'' [(''volume'', None)] = ''@article{doe2024\<newline>}''"
proof -
  note shape = create_entry_shape
    [where fs = "[(''author'', Some ''John Doe''), (''volume'', None), (''year'', Some ''2024'')]"
       and t = "''article''" and k = "''doe2024''" and v = None and n = "''volume''"
       and ?fs1.0 = "[(''author'', Some ''John Doe'')]" and ?fs2.0 = "[(''year'', Some ''2024'')]"]
  note shape0 = create_entry_shape
    [where fs = "[(''volume'', None)]" and t = "''article''" and k = "''doe2024''"]
  note shape1 = create_entry_shape
    [where fs = "[(''volume'', None)]" and t = "''article''" and k = "''doe2024,''"]
  have e: "emitted [(''author'', Some ''John Doe''), (''volume'', None), (''year'', Some ''2024'')] \<noteq> []"
    by (simp add: emitted_def)
  have n: "\<not> truthy None" by simp
  have e0: "emitted [(''volume'', None)] = []" by (simp add: emitted_def)
  have l: "last ''doe2024'' \<notin> set '',\<newline>''" by simp
  from shape e have 1: "create_entry ''article'' ''doe2024''
         [(''author'', Some ''John Doe''), (''volume'', None), (''year'', Some ''2024'')]
       = ''@article{doe2024,\<newline>  author = {John Doe},\<newline>  year = {2024}\<newline>}''"
    by (simp add: emitted_def field_line_def)
  from shape n have 2: "create_entry ''article'' ''doe2024''
         [(''author'', Some ''John Doe''), (''volume'', None), (''year'', Some ''2024'')]
       = create_entry ''article'' ''doe2024''
           [(''author'', Some ''John Doe''), (''year'', Some ''2024'')]"
    by simp
  from shape0 e0 l have
    "create_entry ''article'' ''doe2024'' [(''volume'', None)]
       = ''@'' @ ''article'' @ ''{'' @ ''doe2024'' @ ''\<newline>}''"
    by blast
  then have 3:
    "create_entry ''article'' ''doe2024'' [(''volume'', None)] = ''@article{doe2024\<newline>}''"
    by simp
  from shape1 e0 have
    "create_entry ''article'' ''doe2024,'' [(''volume'', None)]
       = ''@'' @ ''article'' @ ''{'' @ rstrip '',\<newline>'' ''doe2024,'' @ ''\<newline>}''"
    by blast
  then have 4:
    "create_entry ''article'' ''doe2024,'' [(''volume'', None)] = ''@article{doe2024\<newline>}''"
    by (simp add: rstrip_def)
  show ?thesis by (intro conjI e n 1 2 e0 l 3 4)
qed

text \<open>
  Claim C9, as stated, at the citation key \<open>k,\<close>: no field produces a line, and the text
  is \<open>@article{k\<close>, newline, brace; the comma that belongs to the key is lost with the
  comma of the header.
\<close>

theorem create_entry_no_fields_counterexample:
  "emitted [(''author'', Some ''''), (''title'', None)] = []
   \<and> create_entry ''article'' ''k,'' [(''author'', Some ''''), (''title'', None)] = ''@article{k\<newline>}''
   \<and> create_entry ''article'' ''k,'' [(''author'', Some ''''), (''title'', None)] \<noteq> ''@article{k,\<newline>}''"
  by (simp add: emitted_def create_entry_def rstrip_def)

text \<open>
  Claim C9, amended. When every value of the mapping is absent or empty,
  \<open>_create_entry\<close> returns \<open>@<entryTypeName>{\<close>, the citation key without its trailing
  commas and newlines, a newline and a closing brace. For a citation key that is empty
  or does not end in a comma or a newline this is \<open>@<entryTypeName>{<citationKey>\<close>, a
  newline and a closing brace. The function is total: it does not raise.
\<close>

theorem create_entry_no_fields:
  assumes "emitted fs = []"
  shows "create_entry t k fs = ''@'' @ t @ ''{'' @ rstrip '',\<newline>'' k @ ''\<newline>}''
     \<and> (k = [] \<or> last k \<notin> set '',\<newline>'' \<longrightarrow>
          create_entry t k fs = ''@'' @ t @ ''{'' @ k @ ''\<newline>}'')"
  using create_entry_empty [OF assms, of t k] rstrip_id [of k "'',\<newline>''"] by auto

text \<open>The amended C9 at the key \<open>doe2024\<close>, with an empty and an absent value.\<close>

theorem create_entry_no_fields_witness:
  "emitted [(''author'', Some ''''), (''title'', None)] = []
   \<and> last ''doe2024'' \<notin> set '',\<newline>''
   \<and> create_entry ''article'' ''doe2024'' [(''author'', Some ''''), (''title'', None)] = ''@article{doe2024\<newline>}''"
  using create_entry_no_fields [of "[(''author'', Some ''''), (''title'', None)]" "''article''" "''doe2024''"]
  by (simp add: emitted_def rstrip_def)

section \<open>Author formatting\<close>

text \<open>
  Claim C8. For a list of names without commas, with at least one name,
  \<open>_format_authors\<close> on the names joined by commas returns the stripped names joined by
  \<open>" and "\<close>. Whitespace added around a name does not change its stripped form, and a
  stripped name neither starts nor ends with whitespace.
\<close>

theorem format_authors_join:
  assumes "names \<noteq> []" and "\<forall>a\<in>set names. CHR '','' \<notin> set a"
  shows "format_authors (join '','' names) = join '' and '' (map strip names)
     \<and> (\<forall>a\<in>set names. \<forall>l r. (\<forall>c\<in>set l. is_space c) \<and> (\<forall>c\<in>set r. is_space c)
           \<longrightarrow> strip (l @ a @ r) = strip a)
     \<and> (\<forall>a\<in>set names. strip a = [] \<or> (\<not> is_space (hd (strip a)) \<and> \<not> is_space (last (strip a))))"
  using split_on_join [OF assms] strip_pad strip_ends
  by (simp add: format_authors_def)

text \<open>The theorem of C8 at three names with uneven spacing.\<close>

theorem format_authors_join_witness:
  "[''John Doe '', ''  Jane Smith'', ''Bob Wilson  ''] \<noteq> []
   \<and> list_all (\<lambda>a. CHR '','' \<notin> set a) [''John Doe '', ''  Jane Smith'', ''Bob Wilson  '']
   \<and> format_authors ''John Doe ,  Jane Smith,Bob Wilson  '' = ''John Doe and Jane Smith and Bob Wilson''"
  using format_authors_join [of "[''John Doe '', ''  Jane Smith'', ''Bob Wilson  '']"]
  by (simp add: strip_def is_space_def)

section \<open>DOI extraction\<close>

text \<open>
  Claim C10. Whenever \<open>extract_doi_from_url\<close> returns a DOI, the DOI is a contiguous part
  of the input, contains no whitespace and contains exactly one slash.
\<close>

theorem extract_doi_shape:
  assumes "extract_doi_from_url url = Some d"
  shows "(\<exists>pre post. url = pre @ d @ post) \<and> (\<forall>c\<in>set d. \<not> is_space c)
         \<and> count_list d CHR ''/'' = 1"
proof -
  from assms obtain p where p: "p \<in> set doi_patterns" and r: "re_search p url = Some d"
    using first_match_Some [of doi_patterns url d] by (auto simp: extract_doi_from_url_def)
  from re_search_sound [OF r] obtain gs pre post where
    g: "list_all2 fits (group1 p) gs" "d = concat gs" "url = pre @ d @ post" by blast
  from doi_patterns_shape [OF p g(1)] g(2,3) show ?thesis by blast
qed

text \<open>The theorem of C10 at the resolver link of the examples.\<close>

theorem extract_doi_shape_witness:
  "extract_doi_from_url ''https://doi.org/10.1234/example.123'' = Some ''10.1234/example.123''
   \<and> (\<exists>pre post. ''https://doi.org/10.1234/example.123'' = pre @ ''10.1234/example.123'' @ post)
   \<and> list_all (\<lambda>c. \<not> is_space c) ''10.1234/example.123''
   \<and> count_list ''10.1234/example.123'' CHR ''/'' = 1"
proof -
  have h: "extract_doi_from_url ''https://doi.org/10.1234/example.123'' = Some ''10.1234/example.123''"
    by code_simp
  from extract_doi_shape [OF h] h show ?thesis unfolding list_all_iff by blast
qed

text \<open>
  Claim C6. \<open>extract_doi_from_url\<close> tries the pattern \<open>doi.org/<segment>/<segment>\<close> first,
  then \<open>doi:<segment>/<segment>\<close>, then the bare \<open><digits>.<digits>/<segment>\<close>, and
  returns the group of the first pattern that matches. On the four example inputs it
  returns \<open>10.1234/example.123\<close> three times and nothing for the URL without a DOI. Two
  more inputs show the priority: a resolver link or a marker further to the right wins
  over a bare DOI further to the left.
\<close>

theorem extract_doi_priority:
  "extract_doi_from_url url =
     (case re_search doi_org_pattern url of
        Some d \<Rightarrow> Some d
      | None \<Rightarrow>
          (case re_search doi_marker_pattern url of
             Some d \<Rightarrow> Some d
           | None \<Rightarrow> re_search bare_doi_pattern url))
   \<and> extract_doi_from_url ''https://doi.org/10.1234/example.123'' = Some ''10.1234/example.123''
   \<and> extract_doi_from_url ''https://example.com/article/doi:10.1234/example.123''
       = Some ''10.1234/example.123''
   \<and> extract_doi_from_url ''https://example.com/10.1234/example.123'' = Some ''10.1234/example.123''
   \<and> extract_doi_from_url ''https://invalid-url.com'' = None
   \<and> extract_doi_from_url ''https://x.org/10.1/aa?u=doi.org/10.5/bb'' = Some ''10.5/bb''
   \<and> extract_doi_from_url ''https://x.org/10.1/aa?doi:10.7/cc'' = Some ''10.7/cc''"
proof (intro conjI)
  show "extract_doi_from_url url =
     (case re_search doi_org_pattern url of
        Some d \<Rightarrow> Some d
      | None \<Rightarrow>
          (case re_search doi_marker_pattern url of
             Some d \<Rightarrow> Some d
           | None \<Rightarrow> re_search bare_doi_pattern url))"
    by (simp add: extract_doi_from_url_def doi_patterns_def split: option.splits)
qed code_simp+

section \<open>Identifier resolution\<close>



section \<open>The year of a record\<close>

text \<open>
  Claim C4 at a record without \<open>published-print\<close>: the default \<open>[[None]]\<close> is passed
  through \<open>str\<close>, so the year is the four characters \<open>None\<close>, not an absent value; the
  citation key and the \<open>year\<close> line of the entry carry it.
\<close>

theorem undated_year_is_None_text:
  "map_sum id year (publication_info undated_message ''10.1234/example.123'') = Inr ''None''
   \<and> snd (generate_from_identifier (serve undated_message) ''10.1234/example.123'')
       = Inr ''@article{doeNonetest,\<newline>  author = {John Doe},\<newline>  title = {Test Article},\<newline>  journal = {Test Journal},\<newline>  year = {None},\<newline>  doi = {10.1234/example.123}\<newline>}''"
  by (intro conjI; code_simp)

section \<open>Citation keys\<close>

text \<open>
  Claim C5, as stated, at three records: with no author, with no title and with an
  empty title. The derivation fails with the \<open>IndexError\<close> of the subscript or the
  \<open>AttributeError\<close> of \<open>None.split\<close>; there is no dedicated error and no placeholder.
\<close>

theorem citation_key_failure_counterexample:
  "citation_key (example_info\<lparr>authors := []\<rparr>) = Inl IndexError
   \<and> citation_key (example_info\<lparr>title := None\<rparr>) = Inl AttributeError
   \<and> citation_key (example_info\<lparr>title := Some []\<rparr>) = Inl IndexError"
  by (intro conjI; code_simp)

text \<open>
  Claim C5, amended. When the author string is empty, the derivation of the citation
  key fails with an \<open>IndexError\<close>. When the first author has a word, it fails with an
  \<open>AttributeError\<close> for an absent title and with an \<open>IndexError\<close> for an empty title.
\<close>

theorem citation_key_failure:
  "(authors info = [] \<longrightarrow> citation_key info = Inl IndexError)
   \<and> (split_ws (hd (split_on CHR '','' (authors info))) \<noteq> [] \<and> title info = None
        \<longrightarrow> citation_key info = Inl AttributeError)
   \<and> (split_ws (hd (split_on CHR '','' (authors info))) \<noteq> [] \<and> title info = Some []
        \<longrightarrow> citation_key info = Inl IndexError)"
proof -
  obtain a as where s: "split_on CHR '','' (authors info) = a # as"
    using split_on_not_Nil [of "CHR '',''" "authors info"] by (auto simp: neq_Nil_conv)
  show ?thesis
    by (auto simp: citation_key_def s last_item_def split_ws_Nil Let_def split: sum.splits)
qed

text \<open>The amended C5 at the three records.\<close>

theorem citation_key_failure_witness:
  "authors (example_info\<lparr>authors := []\<rparr>) = []
   \<and> citation_key (example_info\<lparr>authors := []\<rparr>) = Inl IndexError
   \<and> split_ws (hd (split_on CHR '','' (authors example_info))) \<noteq> []
   \<and> citation_key (example_info\<lparr>title := None\<rparr>) = Inl AttributeError
   \<and> citation_key (example_info\<lparr>title := Some []\<rparr>) = Inl IndexError"
proof -
  have a: "authors (example_info\<lparr>authors := []\<rparr>) = []" by simp
  have b: "split_ws (hd (split_on CHR '','' (authors example_info))) \<noteq> []" by code_simp
  have t1: "title (example_info\<lparr>title := None\<rparr>) = None" by simp
  have t2: "title (example_info\<lparr>title := Some []\<rparr>) = Some []" by simp
  from citation_key_failure [of "example_info\<lparr>authors := []\<rparr>"] a
  have 1: "citation_key (example_info\<lparr>authors := []\<rparr>) = Inl IndexError" by blast
  from citation_key_failure [of "example_info\<lparr>title := None\<rparr>"] b t1
  have 2: "citation_key (example_info\<lparr>title := None\<rparr>) = Inl AttributeError" by simp
  from citation_key_failure [of "example_info\<lparr>title := Some []\<rparr>"] b t2
  have 3: "citation_key (example_info\<lparr>title := Some []\<rparr>) = Inl IndexError" by simp
  show ?thesis by (intro conjI a b 1 2 3)
qed

section \<open>Entry kinds\<close>

text \<open>
  Claim C1, as stated, at a record of type \<open>book\<close>: the entry type is \<open>article\<close>, and the
  text returned starts with \<open>@article{\<close>, not with \<open>@book{\<close>.
\<close>

theorem kind_selection_counterexample:
  "entry_type_of (Some ''book'') = ''article''
   \<and> snd (generate_from_identifier (serve book_message) ''10.1234/example.123'')
       = Inr ''@article{doe2024test,\<newline>  author = {John Doe},\<newline>  title = {Test Article},\<newline>  journal = {Test Journal},\<newline>  year = {2024},\<newline>  doi = {10.1234/example.123}\<newline>}''
   \<and> \<not> startswith ''@article{doe2024test,\<newline>  author = {John Doe},\<newline>  title = {Test Article},\<newline>  journal = {Test Journal},\<newline>  year = {2024},\<newline>  doi = {10.1234/example.123}\<newline>}'' ''@book{''"
  by (intro conjI; code_simp)

text \<open>
  Claim C1, amended. The type mapping sends \<open>journal-article\<close> to \<open>article\<close> and
  \<open>proceedings-article\<close> to \<open>inproceedings\<close>; every other type, and an absent one, gets
  the default \<open>article\<close>. For every record whose type is not \<open>proceedings-article\<close> the
  entry is the one \<open>create_article\<close> builds from the record, a text that starts with
  \<open>@article{\<close>.
\<close>

theorem kind_selection:
  "entry_type_of (Some ''journal-article'') = ''article''
   \<and> entry_type_of (Some ''proceedings-article'') = ''inproceedings''
   \<and> (t \<noteq> Some ''proceedings-article'' \<longrightarrow> entry_type_of t = ''article'')
   \<and> (pubtype info \<noteq> Some ''proceedings-article'' \<longrightarrow>
        build_entry info key =
          Inr (create_article key (title info) (authors info)
                 (case journal info of None \<Rightarrow> Some [] | Some j \<Rightarrow> Some j)
                 (Some (year info)) (volume info) (number info) (pages info)
                 (Some (doi info)))
        \<and> startswith
             (create_article key (title info) (authors info)
                 (case journal info of None \<Rightarrow> Some [] | Some j \<Rightarrow> Some j)
                 (Some (year info)) (volume info) (number info) (pages info)
                 (Some (doi info)))
             ''@article{'')"
  using create_entry_prefix [of "''article''" key]
  by (simp add: entry_type_of_cases build_entry_def create_article_def)

text \<open>The amended C1 at the type \<open>book\<close> and at a record without a type.\<close>

theorem kind_selection_witness:
  "Some ''book'' \<noteq> Some ''proceedings-article''
   \<and> entry_type_of (Some ''book'') = ''article''
   \<and> pubtype (example_info\<lparr>pubtype := None\<rparr>) \<noteq> Some ''proceedings-article''
   \<and> build_entry (example_info\<lparr>pubtype := None\<rparr>) ''doe2024test''
       = Inr ''@article{doe2024test,\<newline>  author = {John Doe},\<newline>  title = {Test Article},\<newline>  journal = {Test Journal},\<newline>  year = {2024},\<newline>  doi = {10.1234/example.123}\<newline>}''"
proof -
  note k = kind_selection [of "Some ''book''" "example_info\<lparr>pubtype := None\<rparr>" "''doe2024test''"]
  have a: "Some ''book'' \<noteq> Some ''proceedings-article''" by simp
  have b: "pubtype (example_info\<lparr>pubtype := None\<rparr>) \<noteq> Some ''proceedings-article''" by simp
  from k a have 1: "entry_type_of (Some ''book'') = ''article''" by blast
  from k b have "build_entry (example_info\<lparr>pubtype := None\<rparr>) ''doe2024test'' =
          Inr (create_article ''doe2024test'' (title (example_info\<lparr>pubtype := None\<rparr>)) (authors (example_info\<lparr>pubtype := None\<rparr>))
                 (case journal (example_info\<lparr>pubtype := None\<rparr>) of None \<Rightarrow> Some [] | Some j \<Rightarrow> Some j)
                 (Some (year (example_info\<lparr>pubtype := None\<rparr>))) (volume (example_info\<lparr>pubtype := None\<rparr>)) (number (example_info\<lparr>pubtype := None\<rparr>)) (pages (example_info\<lparr>pubtype := None\<rparr>))
                 (Some (doi (example_info\<lparr>pubtype := None\<rparr>))))" by blast
  also have "\<dots> = Inr ''@article{doe2024test,\<newline>  author = {John Doe},\<newline>  title = {Test Article},\<newline>  journal = {Test Journal},\<newline>  year = {2024},\<newline>  doi = {10.1234/example.123}\<newline>}''"
    by code_simp
  finally have 2: "build_entry (example_info\<lparr>pubtype := None\<rparr>) ''doe2024test''
       = Inr ''@article{doe2024test,\<newline>  author = {John Doe},\<newline>  title = {Test Article},\<newline>  journal = {Test Journal},\<newline>  year = {2024},\<newline>  doi = {10.1234/example.123}\<newline>}''" .
  show ?thesis by (intro conjI a b 1 2)
qed

text \<open>
  Claim C2 at a record of type \<open>proceedings-article\<close>: one request is made, and the call
  raises the \<open>TypeError\<close> of \<open>pub_info.get['pages']\<close> instead of returning an entry.
\<close>

theorem proceedings_article_raises:
  "generate_from_identifier (serve proceedings_message) ''10.1234/example.123''
     = ([''https://api.crossref.org/works/10.1234/example.123''], Inl TypeError)"
  by code_simp

end
